theory Spec2Isabelle
  imports Complex_Main
begin

section \<open>Values shared by both modules\<close>

text \<open>
  A Python float is either a finite number, one of the two infinities, or NaN. No
  arithmetic is done on coordinates in the code below: they are tested with
  \<^verbatim>\<open>math.isnan\<close>, handed to the converter and stored, so a finite float is carried as
  the real number it denotes.
\<close>

datatype pyfloat = Finite real | PosInf | NegInf | NaN

fun math_isnan :: "pyfloat \<Rightarrow> bool" where
  "math_isnan NaN = True"
| "math_isnan (Finite x) = False"
| "math_isnan PosInf = False"
| "math_isnan NegInf = False"

text \<open>
  The exception classes that occur: the five that \<^verbatim>\<open>main\<close> catches, and one
  constructor for every other class.
\<close>

datatype error =
    ValueError
  | OSError
  | RuntimeError
  | NotImplementedError
  | ValidationError
  | OtherError string

section \<open>coordextract/factory/gpx\_model\_builder.py\<close>

text \<open>
  Modelled from the spec: \<^verbatim>\<open>PointModel\<close> (coordextract.models.point) is not among the
  sources. The spec gives it as an immutable record of an optional name, a category, a
  latitude, a longitude and a grid reference; the field names are the keyword arguments
  of the constructor call in \<^verbatim>\<open>process_gpx_to_point_models\<close>.
\<close>

record PointModel =
  name :: "string option"
  gpxpoint :: string
  latitude :: pyfloat
  longitude :: pyfloat
  mgrs :: string

text \<open>
  One call of \<^verbatim>\<open>logging.error(msg, latitude, longitude)\<close>: the format string and its
  two arguments.
\<close>

datatype log_record = LogError string pyfloat pyfloat

type_synonym coords = "(pyfloat \<times> pyfloat) list"

text \<open>
  The two collaborators that are imported from outside the sources are parameters:
  \<^verbatim>\<open>async_parse_gpx\<close> yields the three sequences of coordinate pairs or raises, and
  \<^verbatim>\<open>latlon_to_mgrs\<close> yields a grid reference or raises.
\<close>

type_synonym parser = "string \<Rightarrow> error + (coords \<times> coords \<times> coords)"
type_synonym converter = "pyfloat \<Rightarrow> pyfloat \<Rightarrow> error + string"

text \<open>
  The state of the two nested loops: the records logged so far and the list
  \<^verbatim>\<open>point_models\<close>. A raise leaves the loop with the state reached and the exception.
\<close>

record builder_state =
  logged :: "log_record list"
  point_models :: "PointModel list"

definition skip_message :: string where
  "skip_message = ''Skipping invalid point with coordinates: %s, %s''"

text \<open>The inner loop, \<^verbatim>\<open>for latitude, longitude in points\<close>.\<close>

fun points_loop ::
  "converter \<Rightarrow> string \<Rightarrow> coords \<Rightarrow> builder_state \<Rightarrow> builder_state \<times> error option"
where
  "points_loop latlon_to_mgrs point_type [] s = (s, None)"
| "points_loop latlon_to_mgrs point_type ((lat, lon) # points) s =
     (if math_isnan lat \<or> math_isnan lon then
        points_loop latlon_to_mgrs point_type points
          (s\<lparr>logged := logged s @ [LogError skip_message lat lon]\<rparr>)
      else
        (case latlon_to_mgrs lat lon of
           Inl e \<Rightarrow> (s, Some e)
         | Inr m \<Rightarrow>
             points_loop latlon_to_mgrs point_type points
               (s\<lparr>point_models := point_models s @
                    [\<lparr>name = None, gpxpoint = point_type, latitude = lat,
                      longitude = lon, mgrs = m\<rparr>]\<rparr>)))"

text \<open>
  The outer loop, \<^verbatim>\<open>for point_type, points in points_with_types.items()\<close>. A Python
  dict iterates in insertion order, so the dict literal is the list of its items.
\<close>

fun types_loop ::
  "converter \<Rightarrow> (string \<times> coords) list \<Rightarrow> builder_state \<Rightarrow> builder_state \<times> error option"
where
  "types_loop latlon_to_mgrs [] s = (s, None)"
| "types_loop latlon_to_mgrs ((point_type, points) # rest) s =
     (case points_loop latlon_to_mgrs point_type points s of
        (s', Some e) \<Rightarrow> (s', Some e)
      | (s', None) \<Rightarrow> types_loop latlon_to_mgrs rest s')"

text \<open>
  The function returns the list of records or raises; the log records emitted on the
  way are the second component in both cases.
\<close>

definition process_gpx_to_point_models ::
  "parser \<Rightarrow> converter \<Rightarrow> string \<Rightarrow> (error + PointModel list) \<times> log_record list"
where
  "process_gpx_to_point_models async_parse_gpx latlon_to_mgrs gpx_file_path =
     (case async_parse_gpx gpx_file_path of
        Inl e \<Rightarrow> (Inl e, [])
      | Inr (waypoints, trackpoints, routepoints) \<Rightarrow>
          (let points_with_types =
                 [(''waypoint'', waypoints),
                  (''trackpoint'', trackpoints),
                  (''routepoint'', routepoints)]
           in case types_loop latlon_to_mgrs points_with_types
                     \<lparr>logged = [], point_models = []\<rparr> of
                (s, Some e) \<Rightarrow> (Inl e, logged s)
              | (s, None) \<Rightarrow> (Inr (point_models s), logged s)))"

text \<open>The test of line 52, on a pair: the pair is skipped when it holds.\<close>

definition invalid_pair :: "pyfloat \<times> pyfloat \<Rightarrow> bool" where
  "invalid_pair p = (math_isnan (fst p) \<or> math_isnan (snd p))"

section \<open>coordextract/cli.py\<close>

subsection \<open>Paths\<close>

text \<open>
  A pathlib path on a POSIX system: whether it is anchored at the root, and its
  components. No component holds a slash. \<^verbatim>\<open>Path(".")\<close> has no component at all.
\<close>

datatype path = PosixPath (is_absolute: bool) (components: "string list")

definition dot_path :: path where
  "dot_path = PosixPath False []"

text \<open>
  \<^verbatim>\<open>p / child\<close>, for a right operand that is one component: in the code it is the
  literal \<^verbatim>\<open>"coordextract_output"\<close>, a name from the directory listing, or a stem
  followed by \<^verbatim>\<open>".json"\<close>.
\<close>

definition joinpath :: "path \<Rightarrow> string \<Rightarrow> path" where
  "joinpath p child = PosixPath (is_absolute p) (components p @ [child])"

definition path_name :: "path \<Rightarrow> string" where
  "path_name p = (if components p = [] then [] else last (components p))"

text \<open>\<^verbatim>\<open>str.rfind\<close> for one character: the last index where it occurs, or -1.\<close>

fun rfind :: "char \<Rightarrow> string \<Rightarrow> int" where
  "rfind c [] = - 1"
| "rfind c (x # xs) =
     (let i = rfind c xs
      in if 0 \<le> i then i + 1 else if x = c then 0 else - 1)"

text \<open>
  \<^verbatim>\<open>PurePath.suffix\<close> and \<^verbatim>\<open>PurePath.stem\<close>: the name is cut at its last dot when
  that dot is neither the first nor the last character.
\<close>

definition suffix :: "path \<Rightarrow> string" where
  "suffix p =
     (let nm = path_name p; i = rfind CHR ''.'' nm
      in if 0 < i \<and> i < int (length nm) - 1 then drop (nat i) nm else [])"

definition stem :: "path \<Rightarrow> string" where
  "stem p =
     (let nm = path_name p; i = rfind CHR ''.'' nm
      in if 0 < i \<and> i < int (length nm) - 1 then take (nat i) nm else nm)"

subsection \<open>The world outside\<close>

text \<open>
  One call of the pipeline \<^verbatim>\<open>pc\<close> (\<^verbatim>\<open>coordextract.process_coords\<close>) with its
  arguments. The fifth argument is absent in the call made by \<^verbatim>\<open>process_batch\<close>.
\<close>

record pc_call =
  call_inputfile :: path
  call_outputfile :: "path option"
  call_indentation :: "int option"
  call_concurrency :: bool
  call_context :: "string option option"

text \<open>
  What the code asks of the operating system and of the event loop, with the answers:
  \<^item> \<^verbatim>\<open>Path.is_dir\<close>;
  \<^item> \<^verbatim>\<open>os.listdir\<close>, which \<^verbatim>\<open>Path.iterdir\<close> reads the entry names from;
  \<^item> \<^verbatim>\<open>Path.mkdir(parents=True, exist_ok=True)\<close>;
  \<^item> awaiting one call of \<^verbatim>\<open>pc\<close>, which returns the JSON text or \<^verbatim>\<open>None\<close>;
  \<^item> awaiting \<^verbatim>\<open>asyncio.gather\<close> over the tasks created.
  The pipeline \<^verbatim>\<open>pc\<close> is imported from outside the sources, and which task fails first
  is decided by the event loop, so the last two are answers of the environment.
\<close>

record os_env =
  is_dir :: "path \<Rightarrow> bool"
  listdir :: "path \<Rightarrow> error + string list"
  mkdir :: "path \<Rightarrow> error + unit"
  await_pc :: "pc_call \<Rightarrow> error + string option"
  await_gather :: "pc_call list \<Rightarrow> error + unit"

text \<open>The effects of the command, in the order in which they happen.\<close>

datatype effect =
    Iterdir path
  | Mkdir path
  | CreateTask pc_call
  | Gather "pc_call list"
  | AwaitPc pc_call
  | Print string
  | PrintErr error
  | Exit nat
  | Propagate error

subsection \<open>The functions\<close>

definition process ::
  "os_env \<Rightarrow> path \<Rightarrow> path option \<Rightarrow> int option \<Rightarrow> bool \<Rightarrow> string option
     \<Rightarrow> effect list \<times> (error + unit)"
where
  "process env inputfile outputfile indentation concurrency context =
     (let call = \<lparr>call_inputfile = inputfile, call_outputfile = outputfile,
                  call_indentation = indentation, call_concurrency = concurrency,
                  call_context = Some context\<rparr>
      in case await_pc env call of
           Inl e \<Rightarrow> ([AwaitPc call], Inl e)
         | Inr json_str \<Rightarrow>
             (case json_str of
                Some text \<Rightarrow> ([AwaitPc call, Print text], Inr ())
              | None \<Rightarrow> ([AwaitPc call], Inr ())))"

definition process_batch ::
  "os_env \<Rightarrow> path list \<Rightarrow> path \<Rightarrow> int option \<Rightarrow> bool \<Rightarrow> effect list \<times> (error + unit)"
where
  "process_batch env files outputdir indentation concurrency =
     (case mkdir env outputdir of
        Inl e \<Rightarrow> ([Mkdir outputdir], Inl e)
      | Inr _ \<Rightarrow>
          (let tasks =
                 map (\<lambda>file.
                        \<lparr>call_inputfile = file,
                         call_outputfile = Some (joinpath outputdir (stem file @ ''.json'')),
                         call_indentation = indentation,
                         call_concurrency = concurrency,
                         call_context = None\<rparr>)
                     files
           in (Mkdir outputdir # map CreateTask tasks @ [Gather tasks],
               await_gather env tasks)))"

definition process_directory ::
  "os_env \<Rightarrow> path \<Rightarrow> path \<Rightarrow> int option \<Rightarrow> bool \<Rightarrow> effect list \<times> (error + unit)"
where
  "process_directory env inputdir outputdir indentation concurrency =
     (case listdir env inputdir of
        Inl e \<Rightarrow> ([Iterdir inputdir], Inl e)
      | Inr names \<Rightarrow>
          (let files = filter (\<lambda>file. suffix file = ''.gpx'')
                              (map (joinpath inputdir) names);
               (effects, r) = process_batch env files outputdir indentation concurrency
           in (Iterdir inputdir # effects, r)))"

text \<open>The classes named in the \<^verbatim>\<open>except\<close> clause of \<^verbatim>\<open>main\<close>.\<close>

fun caught :: "error \<Rightarrow> bool" where
  "caught ValueError = True"
| "caught OSError = True"
| "caught RuntimeError = True"
| "caught NotImplementedError = True"
| "caught ValidationError = True"
| "caught (OtherError c) = False"

text \<open>
  \<^verbatim>\<open>output or x\<close>: a path is always true, so the right operand is taken exactly when
  no output was given.
\<close>

definition main ::
  "os_env \<Rightarrow> path list \<Rightarrow> path option \<Rightarrow> int option \<Rightarrow> bool \<Rightarrow> effect list"
where
  "main env inputs output indentation concurrency =
     (let (effects, r) =
            (if length inputs = 1 \<and> is_dir env (inputs ! 0) then
               (let inputdir = inputs ! 0;
                    outputdir = (case output of
                                   Some p \<Rightarrow> p
                                 | None \<Rightarrow> joinpath inputdir ''coordextract_output'')
                in process_directory env inputdir outputdir indentation concurrency)
             else if length inputs = 1 then
               process env (inputs ! 0) output indentation concurrency (Some ''cli'')
             else
               (let outputdir = (case output of Some p \<Rightarrow> p | None \<Rightarrow> dot_path)
                in process_batch env inputs outputdir indentation concurrency))
      in case r of
           Inr u \<Rightarrow> effects @ [Exit 0]
         | Inl e \<Rightarrow>
             if caught e then effects @ [PrintErr e, Exit 1]
             else effects @ [Propagate e])"

text \<open>The calls of \<^verbatim>\<open>pc\<close> that were made tasks, and the directories listed.\<close>

fun created_tasks :: "effect list \<Rightarrow> pc_call list" where
  "created_tasks [] = []"
| "created_tasks (CreateTask c # es) = c # created_tasks es"
| "created_tasks (e # es) = created_tasks es"

fun listed_dirs :: "effect list \<Rightarrow> path list" where
  "listed_dirs [] = []"
| "listed_dirs (Iterdir p # es) = p # listed_dirs es"
| "listed_dirs (e # es) = listed_dirs es"

fun created_dirs :: "effect list \<Rightarrow> path list" where
  "created_dirs [] = []"
| "created_dirs (Mkdir p # es) = p # created_dirs es"
| "created_dirs (e # es) = created_dirs es"

section \<open>Concrete inputs\<close>

text \<open>
  A parser result with two invalid pairs among five, its valid pairs alone, and one with
  invalid pairs only; a converter that knows two points and raises on any other.
\<close>

definition sample_parser :: parser where
  "sample_parser gpx_file_path =
     Inr ([(Finite 1, Finite 2), (NaN, Finite 2)],
          [(Finite 3, Finite 4)],
          [(Finite 1, NaN), (Finite 1, Finite 2)])"


definition nan_parser :: parser where
  "nan_parser gpx_file_path = Inr ([(NaN, Finite 2)], [], [(Finite 1, NaN), (NaN, NaN)])"

definition sample_converter :: converter where
  "sample_converter lat lon =
     (if lat = Finite 1 \<and> lon = Finite 2 then Inr ''31NAA''
      else if lat = Finite 3 \<and> lon = Finite 4 then Inr ''31NBB''
      else Inl ValueError)"

definition sample_points :: "PointModel list" where
  "sample_points =
     [\<lparr>name = None, gpxpoint = ''waypoint'', latitude = Finite 1, longitude = Finite 2,
       mgrs = ''31NAA''\<rparr>,
      \<lparr>name = None, gpxpoint = ''trackpoint'', latitude = Finite 3, longitude = Finite 4,
       mgrs = ''31NBB''\<rparr>,
      \<lparr>name = None, gpxpoint = ''routepoint'', latitude = Finite 1, longitude = Finite 2,
       mgrs = ''31NAA''\<rparr>]"

definition sample_logs :: "log_record list" where
  "sample_logs = [LogError skip_message NaN (Finite 2), LogError skip_message (Finite 1) NaN]"

text \<open>
  A directory \<^verbatim>\<open>/data\<close> with two files named \<^verbatim>\<open>*.gpx\<close>, a text file, a file whose
  suffix is in capitals, and a subdirectory named \<^verbatim>\<open>sub.gpx\<close> that holds one more file.
\<close>

definition sample_dir :: path where
  "sample_dir = PosixPath True [''data'']"

definition sample_env :: os_env where
  "sample_env =
     \<lparr>is_dir = (\<lambda>p. p = sample_dir \<or> p = joinpath sample_dir ''sub.gpx''),
      listdir = (\<lambda>p. if p = sample_dir
                      then Inr [''a.gpx'', ''notes.txt'', ''sub.gpx'', ''b.GPX'', ''c.gpx'']
                      else if p = joinpath sample_dir ''sub.gpx'' then Inr [''inner.gpx'']
                      else Inl OSError),
      mkdir = (\<lambda>p. Inr ()),
      await_pc = (\<lambda>call. Inr None),
      await_gather = (\<lambda>tasks. Inr ())\<rparr>"

definition sample_call :: "path \<Rightarrow> path \<Rightarrow> pc_call" where
  "sample_call file outputfile =
     \<lparr>call_inputfile = file, call_outputfile = Some outputfile,
      call_indentation = None, call_concurrency = False, call_context = None\<rparr>"

section \<open>The assembled sequence\<close>

lemma invalid_pair_Pair: "invalid_pair (lat, lon) = (math_isnan lat \<or> math_isnan lon)"
  by (simp add: invalid_pair_def)

lemma points_loop_returns:
  "points_loop c ty ps s = (s', None) \<Longrightarrow>
     logged s' = logged s @ map (\<lambda>(lat, lon). LogError skip_message lat lon) (filter invalid_pair ps) \<and>
     (\<exists>new. point_models s' = point_models s @ new \<and>
        map (\<lambda>p. (latitude p, longitude p)) new = filter (\<lambda>p. \<not> invalid_pair p) ps \<and>
        (\<forall>p \<in> set new. name p = None \<and> gpxpoint p = ty \<and>
                          c (latitude p) (longitude p) = Inr (mgrs p)))"
proof (induction ps arbitrary: s)
  case Nil
  then show ?case by simp
next
  case (Cons a ps)
  obtain lat lon where a: "a = (lat, lon)" by (cases a)
  show ?case
  proof (cases "math_isnan lat \<or> math_isnan lon")
    case True
    with Cons.prems a have "points_loop c ty ps (s\<lparr>logged := logged s @ [LogError skip_message lat lon]\<rparr>) = (s', None)"
      by simp
    from Cons.IH[OF this] True a show ?thesis
      by (auto simp: invalid_pair_Pair)
  next
    case False
    with Cons.prems a obtain m where m: "c lat lon = Inr m"
      and rec: "points_loop c ty ps (s\<lparr>point_models := point_models s @
                    [\<lparr>name = None, gpxpoint = ty, latitude = lat,
                      longitude = lon, mgrs = m\<rparr>]\<rparr>) = (s', None)"
      by (auto split: sum.splits)
    from Cons.IH[OF rec] obtain new where
      l: "logged s' = logged s @ map (\<lambda>(lat, lon). LogError skip_message lat lon) (filter invalid_pair ps)"
      and n: "point_models s' = point_models s @ \<lparr>name = None, gpxpoint = ty, latitude = lat,
                      longitude = lon, mgrs = m\<rparr> # new"
      and co: "map (\<lambda>p. (latitude p, longitude p)) new = filter (\<lambda>p. \<not> invalid_pair p) ps"
      and al: "\<forall>p \<in> set new. name p = None \<and> gpxpoint p = ty \<and>
                          c (latitude p) (longitude p) = Inr (mgrs p)"
      by auto
    show ?thesis
      using l n co al False a m
      by (intro conjI exI[of _ "\<lparr>name = None, gpxpoint = ty, latitude = lat,
                      longitude = lon, mgrs = m\<rparr> # new"])
         (simp_all add: invalid_pair_Pair)
  qed
qed


lemma points_loop_tagged:
  assumes "points_loop c ty ps s = (s', None)"
  shows "\<exists>new. point_models s' = point_models s @ new \<and>
           map (\<lambda>p. (gpxpoint p, latitude p, longitude p)) new =
             map (Pair ty) (filter (\<lambda>p. \<not> invalid_pair p) ps) \<and>
           (\<forall>p \<in> set new. name p = None \<and> c (latitude p) (longitude p) = Inr (mgrs p))"
proof -
  from points_loop_returns[OF assms] obtain new where
    n: "point_models s' = point_models s @ new"
    and co: "map (\<lambda>p. (latitude p, longitude p)) new = filter (\<lambda>p. \<not> invalid_pair p) ps"
    and al: "\<forall>p \<in> set new. name p = None \<and> gpxpoint p = ty \<and>
                          c (latitude p) (longitude p) = Inr (mgrs p)"
    by blast
  have "map (\<lambda>p. (gpxpoint p, latitude p, longitude p)) new = map (Pair ty) (map (\<lambda>p. (latitude p, longitude p)) new)"
    using al by (simp add: comp_def)
  with n co al show ?thesis by auto
qed

lemma points_loop_logged:
  "points_loop c ty ps s = (s', None) \<Longrightarrow>
     logged s' = logged s @
       map (\<lambda>(lat, lon). LogError skip_message lat lon) (filter invalid_pair ps)"
  using points_loop_returns by blast

lemma types_loop_returns:
  "types_loop c items s = (s', None) \<Longrightarrow>
     logged s' = logged s @
       concat (map (\<lambda>(ty, ps). map (\<lambda>(lat, lon). LogError skip_message lat lon)
                                   (filter invalid_pair ps)) items) \<and>
     (\<exists>new. point_models s' = point_models s @ new \<and>
        map (\<lambda>p. (gpxpoint p, latitude p, longitude p)) new =
          concat (map (\<lambda>(ty, ps). map (Pair ty) (filter (\<lambda>p. \<not> invalid_pair p) ps)) items) \<and>
        (\<forall>p \<in> set new. name p = None \<and> c (latitude p) (longitude p) = Inr (mgrs p)))"
proof (induction items arbitrary: s)
  case Nil
  then show ?case by simp
next
  case (Cons it items)
  obtain ty ps where it: "it = (ty, ps)" by (cases it)
  from Cons.prems it obtain s1 where
    one: "points_loop c ty ps s = (s1, None)" and rest: "types_loop c items s1 = (s', None)"
    by (auto split: prod.splits option.splits)
  from points_loop_tagged[OF one] obtain new1 where
    n1: "point_models s1 = point_models s @ new1"
    and t1: "map (\<lambda>p. (gpxpoint p, latitude p, longitude p)) new1 =
             map (Pair ty) (filter (\<lambda>p. \<not> invalid_pair p) ps)"
    and a1: "\<forall>p \<in> set new1. name p = None \<and> c (latitude p) (longitude p) = Inr (mgrs p)"
    by blast
  from Cons.IH[OF rest] obtain new2 where
    l2: "logged s' = logged s1 @
       concat (map (\<lambda>(ty, ps). map (\<lambda>(lat, lon). LogError skip_message lat lon)
                                   (filter invalid_pair ps)) items)"
    and n2: "point_models s' = point_models s1 @ new2"
    and t2: "map (\<lambda>p. (gpxpoint p, latitude p, longitude p)) new2 =
          concat (map (\<lambda>(ty, ps). map (Pair ty) (filter (\<lambda>p. \<not> invalid_pair p) ps)) items)"
    and a2: "\<forall>p \<in> set new2. name p = None \<and> c (latitude p) (longitude p) = Inr (mgrs p)"
    by blast
  have "logged s' = logged s @
       concat (map (\<lambda>(ty, ps). map (\<lambda>(lat, lon). LogError skip_message lat lon)
                                   (filter invalid_pair ps)) (it # items))"
    using l2 points_loop_logged[OF one] it by simp
  moreover have "point_models s' = point_models s @ (new1 @ new2)"
    using n1 n2 by simp
  moreover have "map (\<lambda>p. (gpxpoint p, latitude p, longitude p)) (new1 @ new2) =
          concat (map (\<lambda>(ty, ps). map (Pair ty) (filter (\<lambda>p. \<not> invalid_pair p) ps)) (it # items))"
    using t1 t2 it by simp
  moreover have "\<forall>p \<in> set (new1 @ new2). name p = None \<and> c (latitude p) (longitude p) = Inr (mgrs p)"
    using a1 a2 by auto
  ultimately show ?case by blast
qed

lemma points_loop_skips:
  "point_models s = point_models t \<Longrightarrow>
     point_models (fst (points_loop c ty ps s)) =
       point_models (fst (points_loop c ty (filter (\<lambda>p. \<not> invalid_pair p) ps) t)) \<and>
     snd (points_loop c ty ps s) =
       snd (points_loop c ty (filter (\<lambda>p. \<not> invalid_pair p) ps) t)"
proof (induction ps arbitrary: s t)
  case Nil
  then show ?case by simp
next
  case (Cons a ps)
  obtain lat lon where a: "a = (lat, lon)" by (cases a)
  show ?case
  proof (cases "math_isnan lat \<or> math_isnan lon")
    case True
    then show ?thesis
      using a Cons.IH[of "s\<lparr>logged := logged s @ [LogError skip_message lat lon]\<rparr>" t] Cons.prems
      by (simp add: invalid_pair_Pair)
  next
    case False
    show ?thesis
    proof (cases "c lat lon")
      case (Inl e)
      then show ?thesis using a False Cons.prems by (simp add: invalid_pair_Pair)
    next
      case (Inr m)
      let ?pm = "\<lparr>name = None, gpxpoint = ty, latitude = lat, longitude = lon, mgrs = m\<rparr>"
      have "point_models (s\<lparr>point_models := point_models s @ [?pm]\<rparr>) =
            point_models (t\<lparr>point_models := point_models t @ [?pm]\<rparr>)"
        using Cons.prems by simp
      from Cons.IH[OF this] show ?thesis using a False Inr
        by (simp add: invalid_pair_Pair)
    qed
  qed
qed

lemma types_loop_skips:
  "point_models s = point_models t \<Longrightarrow>
     point_models (fst (types_loop c items s)) =
       point_models (fst (types_loop c
          (map (\<lambda>(ty, ps). (ty, filter (\<lambda>p. \<not> invalid_pair p) ps)) items) t)) \<and>
     snd (types_loop c items s) =
       snd (types_loop c
          (map (\<lambda>(ty, ps). (ty, filter (\<lambda>p. \<not> invalid_pair p) ps)) items) t)"
proof (induction items arbitrary: s t)
  case Nil
  then show ?case by simp
next
  case (Cons it items)
  obtain ty ps where it: "it = (ty, ps)" by (cases it)
  obtain s1 r1 where one: "points_loop c ty ps s = (s1, r1)" by (cases "points_loop c ty ps s")
  obtain t1 q1 where two: "points_loop c ty (filter (\<lambda>p. \<not> invalid_pair p) ps) t = (t1, q1)"
    by (cases "points_loop c ty (filter (\<lambda>p. \<not> invalid_pair p) ps) t")
  from points_loop_skips[OF Cons.prems, of c ty ps] one two
  have eq: "point_models s1 = point_models t1" "r1 = q1" by simp_all
  show ?case
  proof (cases r1)
    case None
    then show ?thesis using it one two eq Cons.IH[OF eq(1)] by simp
  next
    case (Some e)
    then show ?thesis using it one two eq by simp
  qed
qed


lemma process_returns:
  assumes parsed: "async_parse_gpx gpx_file_path = Inr (waypoints, trackpoints, routepoints)"
    and ret: "process_gpx_to_point_models async_parse_gpx latlon_to_mgrs gpx_file_path = (Inr out, logs)"
  shows "map (\<lambda>p. (gpxpoint p, latitude p, longitude p)) out =
           map (Pair ''waypoint'') (filter (\<lambda>p. \<not> invalid_pair p) waypoints) @
           map (Pair ''trackpoint'') (filter (\<lambda>p. \<not> invalid_pair p) trackpoints) @
           map (Pair ''routepoint'') (filter (\<lambda>p. \<not> invalid_pair p) routepoints)"
    and "logs = map (\<lambda>(lat, lon). LogError skip_message lat lon)
                 (filter invalid_pair (waypoints @ trackpoints @ routepoints))"
    and "\<forall>p \<in> set out. name p = None \<and> latlon_to_mgrs (latitude p) (longitude p) = Inr (mgrs p)"
proof -
  let ?items = "[(''waypoint'', waypoints), (''trackpoint'', trackpoints),
                 (''routepoint'', routepoints)]"
  let ?s0 = "\<lparr>logged = [], point_models = []\<rparr>"
  from parsed ret obtain s where
    loop: "types_loop latlon_to_mgrs ?items ?s0 = (s, None)"
    and out: "out = point_models s" and logs: "logs = logged s"
    by (auto simp: process_gpx_to_point_models_def split: prod.splits option.splits)
  from types_loop_returns[OF loop] out logs
  show "map (\<lambda>p. (gpxpoint p, latitude p, longitude p)) out =
           map (Pair ''waypoint'') (filter (\<lambda>p. \<not> invalid_pair p) waypoints) @
           map (Pair ''trackpoint'') (filter (\<lambda>p. \<not> invalid_pair p) trackpoints) @
           map (Pair ''routepoint'') (filter (\<lambda>p. \<not> invalid_pair p) routepoints)"
    and "logs = map (\<lambda>(lat, lon). LogError skip_message lat lon)
                 (filter invalid_pair (waypoints @ trackpoints @ routepoints))"
    and "\<forall>p \<in> set out. name p = None \<and> latlon_to_mgrs (latitude p) (longitude p) = Inr (mgrs p)"
    by auto
qed


lemma run_sample:
  "process_gpx_to_point_models sample_parser sample_converter gpx_file_path =
     (Inr sample_points, sample_logs)"
  by (simp add: process_gpx_to_point_models_def sample_parser_def sample_converter_def
        sample_points_def sample_logs_def)





text \<open>
  C3. The grid reference stored in a record of the output is what the converter returns
  for the latitude and the longitude stored in that same record.
\<close>

theorem grid_reference_of_own_coordinates:
  assumes "process_gpx_to_point_models async_parse_gpx latlon_to_mgrs gpx_file_path =
             (Inr out, logs)"
    and "p \<in> set out"
  shows "latlon_to_mgrs (latitude p) (longitude p) = Inr (mgrs p)"
proof -
  from assms(1) obtain w t r where "async_parse_gpx gpx_file_path = Inr (w, t, r)"
    by (auto simp: process_gpx_to_point_models_def split: sum.splits)
  from process_returns(3)[OF this assms(1)] assms(2) show ?thesis by blast
qed

text \<open>The first record of the sample output.\<close>

theorem grid_reference_of_own_coordinates_witness:
  "process_gpx_to_point_models sample_parser sample_converter ''track.gpx'' =
     (Inr sample_points, sample_logs) \<and>
   hd sample_points \<in> set sample_points \<and>
   sample_converter (latitude (hd sample_points)) (longitude (hd sample_points)) =
     Inr (mgrs (hd sample_points)) \<and>
   mgrs (hd sample_points) = ''31NAA''"
proof -
  have mem: "hd sample_points \<in> set sample_points"
    by (simp add: sample_points_def)
  from grid_reference_of_own_coordinates[OF run_sample mem] run_sample mem show ?thesis
    by (simp add: sample_points_def)
qed

text \<open>
  C8. When every pair of the input is invalid, the function returns the empty list; it
  does not raise, and it has logged every pair.
\<close>

theorem all_invalid_returns_empty:
  assumes "async_parse_gpx gpx_file_path = Inr (waypoints, trackpoints, routepoints)"
    and "\<forall>p \<in> set (waypoints @ trackpoints @ routepoints). invalid_pair p"
  shows "process_gpx_to_point_models async_parse_gpx latlon_to_mgrs gpx_file_path =
           (Inr [],
            map (\<lambda>(lat, lon). LogError skip_message lat lon)
                (waypoints @ trackpoints @ routepoints))"
proof -
  let ?items = "[(''waypoint'', waypoints), (''trackpoint'', trackpoints),
                 (''routepoint'', routepoints)]"
  let ?s0 = "\<lparr>logged = [], point_models = []\<rparr>"
  have none: "filter (\<lambda>p. \<not> invalid_pair p) waypoints = []"
    "filter (\<lambda>p. \<not> invalid_pair p) trackpoints = []"
    "filter (\<lambda>p. \<not> invalid_pair p) routepoints = []"
    using assms(2) by (auto simp: filter_empty_conv)
  have all: "filter invalid_pair (waypoints @ trackpoints @ routepoints) =
             waypoints @ trackpoints @ routepoints"
    using assms(2) by (simp only: filter_id_conv) 
  obtain s r where loop: "types_loop latlon_to_mgrs ?items ?s0 = (s, r)"
    by (cases "types_loop latlon_to_mgrs ?items ?s0")
  have "point_models ?s0 = point_models ?s0" by simp
  from types_loop_skips[OF this, of latlon_to_mgrs ?items] loop none
  have r: "r = None" by simp
  with loop assms(1) obtain out logs where
    ret: "process_gpx_to_point_models async_parse_gpx latlon_to_mgrs gpx_file_path =
            (Inr out, logs)"
    by (simp add: process_gpx_to_point_models_def del: types_loop.simps)
  from process_returns(1)[OF assms(1) ret] none have "out = []" by simp
  moreover from process_returns(2)[OF assms(1) ret]
  have "logs = map (\<lambda>(lat, lon). LogError skip_message lat lon)
                (waypoints @ trackpoints @ routepoints)"
    by (simp only: all)
  ultimately show ?thesis using ret by simp
qed

text \<open>Three pairs, each with a NaN.\<close>

theorem all_invalid_returns_empty_witness:
  "nan_parser ''track.gpx'' = Inr ([(NaN, Finite 2)], [], [(Finite 1, NaN), (NaN, NaN)]) \<and>
   process_gpx_to_point_models nan_parser sample_converter ''track.gpx'' =
     (Inr [],
      [LogError skip_message NaN (Finite 2), LogError skip_message (Finite 1) NaN,
       LogError skip_message NaN NaN])"
proof -
  have parsed: "nan_parser ''track.gpx'' =
                  Inr ([(NaN, Finite 2)], [], [(Finite 1, NaN), (NaN, NaN)])"
    by (simp add: nan_parser_def)
  have inv: "\<forall>p \<in> set ([(NaN, Finite 2)] @ [] @ [(Finite 1, NaN), (NaN, NaN)]). invalid_pair p"
    by (simp add: invalid_pair_def)
  from all_invalid_returns_empty[where async_parse_gpx = nan_parser
      and gpx_file_path = "''track.gpx''" and latlon_to_mgrs = sample_converter,
      OF parsed inv] parsed
  show ?thesis
    by simp
qed

section \<open>The command\<close>

lemma path_name_joinpath: "path_name (joinpath p child) = child"
  by (simp add: path_name_def joinpath_def)

lemma joinpath_eq: "joinpath p a = joinpath p b \<longleftrightarrow> a = b"
  by (simp add: joinpath_def)

lemma stem_suffix: "stem p @ suffix p = path_name p"
  by (simp add: stem_def suffix_def Let_def)

lemma created_tasks_append:
  "created_tasks (xs @ ys) = created_tasks xs @ created_tasks ys"
  by (induction xs rule: created_tasks.induct) simp_all

lemma created_tasks_CreateTask: "created_tasks (map (CreateTask \<circ> f) xs) = map f xs"
  by (induction xs) simp_all

lemma created_dirs_append:
  "created_dirs (xs @ ys) = created_dirs xs @ created_dirs ys"
  by (induction xs rule: created_dirs.induct) simp_all

lemma created_dirs_CreateTask: "created_dirs (map (CreateTask \<circ> f) xs) = []"
  by (induction xs) simp_all

lemma listed_dirs_append:
  "listed_dirs (xs @ ys) = listed_dirs xs @ listed_dirs ys"
  by (induction xs rule: listed_dirs.induct) simp_all

lemma listed_dirs_CreateTask: "listed_dirs (map (CreateTask \<circ> f) xs) = []"
  by (induction xs) simp_all

lemma process_batch_tasks:
  "mkdir env outputdir = Inr u \<Longrightarrow>
     created_tasks (fst (process_batch env files outputdir indentation concurrency)) =
       map (\<lambda>file.
              \<lparr>call_inputfile = file,
               call_outputfile = Some (joinpath outputdir (stem file @ ''.json'')),
               call_indentation = indentation,
               call_concurrency = concurrency,
               call_context = None\<rparr>) files"
  by (simp add: process_batch_def Let_def created_tasks_append created_tasks_CreateTask)

lemma process_batch_no_tasks:
  "mkdir env outputdir = Inl e \<Longrightarrow>
     fst (process_batch env files outputdir indentation concurrency) = [Mkdir outputdir]"
  by (simp add: process_batch_def)

lemma created_tasks_main:
  "created_tasks (main env inputs output indentation concurrency) =
     created_tasks (fst
       (if length inputs = 1 \<and> is_dir env (inputs ! 0) then
          process_directory env (inputs ! 0)
            (case output of Some p \<Rightarrow> p
                          | None \<Rightarrow> joinpath (inputs ! 0) ''coordextract_output'')
            indentation concurrency
        else if length inputs = 1 then
          process env (inputs ! 0) output indentation concurrency (Some ''cli'')
        else
          process_batch env inputs (case output of Some p \<Rightarrow> p | None \<Rightarrow> dot_path)
            indentation concurrency))"
  by (simp add: main_def Let_def created_tasks_append split: prod.splits sum.splits)

lemma gpx_name:
  assumes "suffix (joinpath d n) = ''.gpx''"
  shows "n = stem (joinpath d n) @ ''.gpx''"
  using stem_suffix[of "joinpath d n"] assms by (simp add: path_name_joinpath)

lemma output_names_inj:
  "inj_on (\<lambda>file. Some (joinpath outputdir (stem file @ ''.json'')))
          {file \<in> joinpath d ` N. suffix file = ''.gpx''}"
proof (rule inj_onI)
  fix f g
  assume f: "f \<in> {file \<in> joinpath d ` N. suffix file = ''.gpx''}"
    and g: "g \<in> {file \<in> joinpath d ` N. suffix file = ''.gpx''}"
    and eq: "Some (joinpath outputdir (stem f @ ''.json'')) =
             Some (joinpath outputdir (stem g @ ''.json''))"
  from f obtain a where a: "f = joinpath d a" "suffix (joinpath d a) = ''.gpx''" by auto
  from g obtain b where b: "g = joinpath d b" "suffix (joinpath d b) = ''.gpx''" by auto
  from eq have "stem f = stem g" by (simp add: joinpath_eq)
  with gpx_name[OF a(2)] gpx_name[OF b(2)] a(1) b(1) show "f = g" by simp
qed

lemma process_directory_effects:
  assumes "listdir env inputdir = Inr names"
  shows "fst (process_directory env inputdir outputdir indentation concurrency) =
           Iterdir inputdir #
           fst (process_batch env
                  (filter (\<lambda>file. suffix file = ''.gpx'') (map (joinpath inputdir) names))
                  outputdir indentation concurrency)"
  using assms by (simp add: process_directory_def Let_def split: prod.splits)

lemma process_batch_dirs:
  "created_dirs (fst (process_batch env files outputdir indentation concurrency)) = [outputdir]"
  by (cases "mkdir env outputdir")
     (simp_all add: process_batch_def Let_def created_dirs_append created_dirs_CreateTask)

lemma process_batch_listed:
  "listed_dirs (fst (process_batch env files outputdir indentation concurrency)) = []"
  by (cases "mkdir env outputdir")
     (simp_all add: process_batch_def Let_def listed_dirs_append listed_dirs_CreateTask)

lemma created_dirs_main:
  "created_dirs (main env inputs output indentation concurrency) =
     created_dirs (fst
       (if length inputs = 1 \<and> is_dir env (inputs ! 0) then
          process_directory env (inputs ! 0)
            (case output of Some p \<Rightarrow> p
                          | None \<Rightarrow> joinpath (inputs ! 0) ''coordextract_output'')
            indentation concurrency
        else if length inputs = 1 then
          process env (inputs ! 0) output indentation concurrency (Some ''cli'')
        else
          process_batch env inputs (case output of Some p \<Rightarrow> p | None \<Rightarrow> dot_path)
            indentation concurrency))"
  by (simp add: main_def Let_def created_dirs_append split: prod.splits sum.splits)

lemma selected_distinct:
  assumes "distinct names"
  shows "distinct (map (\<lambda>file. Some (joinpath outputdir (stem file @ ''.json'')))
                    (filter (\<lambda>file. suffix file = ''.gpx'') (map (joinpath inputdir) names)))"
proof -
  have "distinct (map (joinpath inputdir) names)"
    using assms by (simp add: distinct_map inj_on_def joinpath_eq)
  then have d: "distinct (filter (\<lambda>file. suffix file = ''.gpx'') (map (joinpath inputdir) names))"
    by simp
  have "set (filter (\<lambda>file. suffix file = ''.gpx'') (map (joinpath inputdir) names)) =
        {file \<in> joinpath inputdir ` set names. suffix file = ''.gpx''}"
    by auto
  with d output_names_inj[of outputdir inputdir "set names"] show ?thesis
    by (simp add: distinct_map)
qed

lemma main_directory_effects:
  assumes "is_dir env inputdir"
    and "listdir env inputdir = Inr names"
    and "mkdir env (joinpath inputdir ''coordextract_output'') = Inr ()"
    and "tasks =
           map (\<lambda>file.
                  \<lparr>call_inputfile = file,
                   call_outputfile =
                     Some (joinpath (joinpath inputdir ''coordextract_output'')
                                    (stem file @ ''.json'')),
                   call_indentation = indentation,
                   call_concurrency = concurrency,
                   call_context = None\<rparr>)
               (filter (\<lambda>file. suffix file = ''.gpx'') (map (joinpath inputdir) names))"
  shows "main env [inputdir] None indentation concurrency =
           Iterdir inputdir # Mkdir (joinpath inputdir ''coordextract_output'') #
           map CreateTask tasks @
           Gather tasks #
           (case await_gather env tasks of
              Inr u \<Rightarrow> [Exit 0]
            | Inl e \<Rightarrow> if caught e then [PrintErr e, Exit 1] else [Propagate e])"
  using assms
  by (simp add: main_def process_directory_def process_batch_def Let_def split: sum.splits)

text \<open>
  C4. Given one directory and no output, the command lists the directory, creates
  \<^verbatim>\<open>coordextract_output\<close> in it, and for every selected file creates one task whose
  output path is the file's stem followed by \<^verbatim>\<open>.json\<close>, directly under that
  directory. It then awaits exactly these tasks, all together, and ends on the outcome
  of that wait. The output paths of different entries of the directory are different.
\<close>

theorem directory_outputs:
  assumes "is_dir env inputdir"
    and "listdir env inputdir = Inr names"
    and "mkdir env (joinpath inputdir ''coordextract_output'') = Inr ()"
  shows "created_tasks (main env [inputdir] None indentation concurrency) =
           map (\<lambda>file.
                  \<lparr>call_inputfile = file,
                   call_outputfile =
                     Some (joinpath (joinpath inputdir ''coordextract_output'')
                                    (stem file @ ''.json'')),
                   call_indentation = indentation,
                   call_concurrency = concurrency,
                   call_context = None\<rparr>)
               (filter (\<lambda>file. suffix file = ''.gpx'') (map (joinpath inputdir) names)) \<and>
         created_dirs (main env [inputdir] None indentation concurrency) =
           [joinpath inputdir ''coordextract_output''] \<and>
         (distinct names \<longrightarrow>
            distinct (map call_outputfile
                        (created_tasks (main env [inputdir] None indentation concurrency)))) \<and>
         main env [inputdir] None indentation concurrency =
           Iterdir inputdir # Mkdir (joinpath inputdir ''coordextract_output'') #
           map CreateTask (created_tasks (main env [inputdir] None indentation concurrency)) @
           Gather (created_tasks (main env [inputdir] None indentation concurrency)) #
           (case await_gather env
                   (created_tasks (main env [inputdir] None indentation concurrency)) of
              Inr u \<Rightarrow> [Exit 0]
            | Inl e \<Rightarrow> if caught e then [PrintErr e, Exit 1] else [Propagate e])"
proof -
  let ?out = "joinpath inputdir ''coordextract_output''"
  let ?files = "filter (\<lambda>file. suffix file = ''.gpx'') (map (joinpath inputdir) names)"
  let ?tasks = "map (\<lambda>file.
                  \<lparr>call_inputfile = file,
                   call_outputfile = Some (joinpath ?out (stem file @ ''.json'')),
                   call_indentation = indentation,
                   call_concurrency = concurrency,
                   call_context = None\<rparr>) ?files"
  have tasks: "created_tasks (main env [inputdir] None indentation concurrency) = ?tasks"
    using assms
    by (simp add: created_tasks_main process_directory_effects process_batch_tasks)
  have dirs: "created_dirs (main env [inputdir] None indentation concurrency) = [?out]"
    using assms
    by (simp add: created_dirs_main process_directory_effects process_batch_dirs)
  have dist: "distinct names \<longrightarrow>
          distinct (map call_outputfile
                      (created_tasks (main env [inputdir] None indentation concurrency)))"
    using selected_distinct[of names ?out inputdir] by (simp add: tasks comp_def)
  have "main env [inputdir] None indentation concurrency =
           Iterdir inputdir # Mkdir ?out #
           map CreateTask (created_tasks (main env [inputdir] None indentation concurrency)) @
           Gather (created_tasks (main env [inputdir] None indentation concurrency)) #
           (case await_gather env
                   (created_tasks (main env [inputdir] None indentation concurrency)) of
              Inr u \<Rightarrow> [Exit 0]
            | Inl e \<Rightarrow> if caught e then [PrintErr e, Exit 1] else [Propagate e])"
    unfolding tasks by (rule main_directory_effects[OF assms refl])
  with tasks dirs dist show ?thesis by blast
qed

theorem directory_outputs_witness:
  "is_dir sample_env sample_dir \<and>
   listdir sample_env sample_dir =
     Inr [''a.gpx'', ''notes.txt'', ''sub.gpx'', ''b.GPX'', ''c.gpx''] \<and>
   mkdir sample_env (joinpath sample_dir ''coordextract_output'') = Inr () \<and>
   map call_outputfile (created_tasks (main sample_env [sample_dir] None None False)) =
     [Some (PosixPath True [''data'', ''coordextract_output'', ''a.json'']),
      Some (PosixPath True [''data'', ''coordextract_output'', ''sub.json'']),
      Some (PosixPath True [''data'', ''coordextract_output'', ''c.json''])] \<and>
   created_dirs (main sample_env [sample_dir] None None False) =
     [PosixPath True [''data'', ''coordextract_output'']] \<and>
   distinct (map call_outputfile (created_tasks (main sample_env [sample_dir] None None False))) \<and>
   main sample_env [sample_dir] None None False =
     [Iterdir (PosixPath True [''data'']),
      Mkdir (PosixPath True [''data'', ''coordextract_output'']),
      CreateTask (sample_call (PosixPath True [''data'', ''a.gpx''])
                    (PosixPath True [''data'', ''coordextract_output'', ''a.json''])),
      CreateTask (sample_call (PosixPath True [''data'', ''sub.gpx''])
                    (PosixPath True [''data'', ''coordextract_output'', ''sub.json''])),
      CreateTask (sample_call (PosixPath True [''data'', ''c.gpx''])
                    (PosixPath True [''data'', ''coordextract_output'', ''c.json''])),
      Gather [sample_call (PosixPath True [''data'', ''a.gpx''])
                (PosixPath True [''data'', ''coordextract_output'', ''a.json'']),
              sample_call (PosixPath True [''data'', ''sub.gpx''])
                (PosixPath True [''data'', ''coordextract_output'', ''sub.json'']),
              sample_call (PosixPath True [''data'', ''c.gpx''])
                (PosixPath True [''data'', ''coordextract_output'', ''c.json''])],
      Exit 0]"
proof -
  have d: "is_dir sample_env sample_dir"
    by (simp add: sample_env_def)
  have l: "listdir sample_env sample_dir =
             Inr [''a.gpx'', ''notes.txt'', ''sub.gpx'', ''b.GPX'', ''c.gpx'']"
    by (simp add: sample_env_def)
  have m: "mkdir sample_env (joinpath sample_dir ''coordextract_output'') = Inr ()"
    by (simp add: sample_env_def)
  have n: "distinct [''a.gpx'', ''notes.txt'', ''sub.gpx'', ''b.GPX'', ''c.gpx'']"
    by simp
  have g: "await_gather sample_env tasks = Inr ()" for tasks
    by (simp add: sample_env_def)
  note th = directory_outputs[OF d l m, of None False]
  have t: "created_tasks (main sample_env [sample_dir] None None False) =
     [sample_call (PosixPath True [''data'', ''a.gpx''])
        (PosixPath True [''data'', ''coordextract_output'', ''a.json'']),
      sample_call (PosixPath True [''data'', ''sub.gpx''])
        (PosixPath True [''data'', ''coordextract_output'', ''sub.json'']),
      sample_call (PosixPath True [''data'', ''c.gpx''])
        (PosixPath True [''data'', ''coordextract_output'', ''c.json''])]"
    using th[THEN conjunct1]
    by (simp add: sample_dir_def joinpath_def suffix_def stem_def path_name_def Let_def
          sample_call_def)
  have c: "created_dirs (main sample_env [sample_dir] None None False) =
     [PosixPath True [''data'', ''coordextract_output'']]"
    using th[THEN conjunct2, THEN conjunct1] by (simp add: sample_dir_def joinpath_def)
  have e: "main sample_env [sample_dir] None None False =
     [Iterdir (PosixPath True [''data'']),
      Mkdir (PosixPath True [''data'', ''coordextract_output'']),
      CreateTask (sample_call (PosixPath True [''data'', ''a.gpx''])
                    (PosixPath True [''data'', ''coordextract_output'', ''a.json''])),
      CreateTask (sample_call (PosixPath True [''data'', ''sub.gpx''])
                    (PosixPath True [''data'', ''coordextract_output'', ''sub.json''])),
      CreateTask (sample_call (PosixPath True [''data'', ''c.gpx''])
                    (PosixPath True [''data'', ''coordextract_output'', ''c.json''])),
      Gather [sample_call (PosixPath True [''data'', ''a.gpx''])
                (PosixPath True [''data'', ''coordextract_output'', ''a.json'']),
              sample_call (PosixPath True [''data'', ''sub.gpx''])
                (PosixPath True [''data'', ''coordextract_output'', ''sub.json'']),
              sample_call (PosixPath True [''data'', ''c.gpx''])
                (PosixPath True [''data'', ''coordextract_output'', ''c.json''])],
      Exit 0]"
    by (subst th[THEN conjunct2, THEN conjunct2, THEN conjunct2], unfold t)
       (simp add: g sample_dir_def joinpath_def)
  have o: "map call_outputfile (created_tasks (main sample_env [sample_dir] None None False)) =
     [Some (PosixPath True [''data'', ''coordextract_output'', ''a.json'']),
      Some (PosixPath True [''data'', ''coordextract_output'', ''sub.json'']),
      Some (PosixPath True [''data'', ''coordextract_output'', ''c.json''])]"
    unfolding t by (simp add: sample_call_def)
  have "distinct (map call_outputfile
                    (created_tasks (main sample_env [sample_dir] None None False)))"
    using th[THEN conjunct2, THEN conjunct2, THEN conjunct1] n by blast
  with d l m o c e show ?thesis by blast
qed

lemma json_name_not_output_dir: "s @ ''.json'' \<noteq> ''coordextract_output''"
proof
  assume "s @ ''.json'' = ''coordextract_output''"
  then have "last (s @ ''.json'') = last ''coordextract_output''" by simp
  then show False by simp
qed

lemma main_several_effects:
  assumes "1 < length inputs"
    and "mkdir env dot_path = Inr ()"
    and "tasks =
           map (\<lambda>file.
                  \<lparr>call_inputfile = file,
                   call_outputfile = Some (PosixPath False [stem file @ ''.json'']),
                   call_indentation = indentation,
                   call_concurrency = concurrency,
                   call_context = None\<rparr>) inputs"
  shows "main env inputs None indentation concurrency =
           Mkdir dot_path # map CreateTask tasks @
           Gather tasks #
           (case await_gather env tasks of
              Inr u \<Rightarrow> [Exit 0]
            | Inl e \<Rightarrow> if caught e then [PrintErr e, Exit 1] else [Propagate e])"
proof -
  have "joinpath dot_path n = PosixPath False [n]" for n
    by (simp add: dot_path_def joinpath_def)
  with assms show ?thesis
    by (simp add: main_def process_batch_def Let_def split: sum.splits)
qed

text \<open>
  C10. Given more than one input and no output, the command creates the directory
  \<^verbatim>\<open>Path(".")\<close> and, for every input, one task whose output path is the input's stem
  followed by \<^verbatim>\<open>.json\<close>, relative to the working directory. It then awaits exactly
  these tasks, all together, and ends on the outcome of that wait. No output path has
  a component \<^verbatim>\<open>coordextract_output\<close>.
\<close>

theorem several_inputs_outputs:
  assumes "1 < length inputs"
    and "mkdir env dot_path = Inr ()"
  shows "created_tasks (main env inputs None indentation concurrency) =
           map (\<lambda>file.
                  \<lparr>call_inputfile = file,
                   call_outputfile = Some (PosixPath False [stem file @ ''.json'']),
                   call_indentation = indentation,
                   call_concurrency = concurrency,
                   call_context = None\<rparr>) inputs \<and>
         created_dirs (main env inputs None indentation concurrency) = [dot_path] \<and>
         (\<forall>c \<in> set (created_tasks (main env inputs None indentation concurrency)).
            \<forall>p. call_outputfile c = Some p \<longrightarrow> ''coordextract_output'' \<notin> set (components p)) \<and>
         main env inputs None indentation concurrency =
           Mkdir dot_path #
           map CreateTask (created_tasks (main env inputs None indentation concurrency)) @
           Gather (created_tasks (main env inputs None indentation concurrency)) #
           (case await_gather env
                   (created_tasks (main env inputs None indentation concurrency)) of
              Inr u \<Rightarrow> [Exit 0]
            | Inl e \<Rightarrow> if caught e then [PrintErr e, Exit 1] else [Propagate e])"
proof -
  have tasks: "created_tasks (main env inputs None indentation concurrency) =
           map (\<lambda>file.
                  \<lparr>call_inputfile = file,
                   call_outputfile = Some (PosixPath False [stem file @ ''.json'']),
                   call_indentation = indentation,
                   call_concurrency = concurrency,
                   call_context = None\<rparr>) inputs"
    using assms
    by (simp add: created_tasks_main process_batch_tasks) (simp add: dot_path_def joinpath_def)
  have dirs: "created_dirs (main env inputs None indentation concurrency) = [dot_path]"
    using assms by (simp add: created_dirs_main process_batch_dirs)
  have names: "\<forall>c \<in> set (created_tasks (main env inputs None indentation concurrency)).
            \<forall>p. call_outputfile c = Some p \<longrightarrow> ''coordextract_output'' \<notin> set (components p)"
    unfolding tasks using json_name_not_output_dir by auto
  have "main env inputs None indentation concurrency =
           Mkdir dot_path #
           map CreateTask (created_tasks (main env inputs None indentation concurrency)) @
           Gather (created_tasks (main env inputs None indentation concurrency)) #
           (case await_gather env
                   (created_tasks (main env inputs None indentation concurrency)) of
              Inr u \<Rightarrow> [Exit 0]
            | Inl e \<Rightarrow> if caught e then [PrintErr e, Exit 1] else [Propagate e])"
    unfolding tasks by (rule main_several_effects[OF assms refl])
  with tasks dirs names show ?thesis by blast
qed

text \<open>Two inputs with the same stem, in different directories.\<close>

theorem several_inputs_outputs_witness:
  "map call_outputfile
     (created_tasks (main sample_env
        [PosixPath True [''x'', ''a.gpx''], PosixPath True [''y'', ''a.kml'']]
        None None False)) =
     [Some (PosixPath False [''a.json'']), Some (PosixPath False [''a.json''])] \<and>
   created_dirs (main sample_env
        [PosixPath True [''x'', ''a.gpx''], PosixPath True [''y'', ''a.kml'']]
        None None False) = [PosixPath False []] \<and>
   main sample_env
        [PosixPath True [''x'', ''a.gpx''], PosixPath True [''y'', ''a.kml'']]
        None None False =
     [Mkdir (PosixPath False []),
      CreateTask (sample_call (PosixPath True [''x'', ''a.gpx'']) (PosixPath False [''a.json''])),
      CreateTask (sample_call (PosixPath True [''y'', ''a.kml'']) (PosixPath False [''a.json''])),
      Gather [sample_call (PosixPath True [''x'', ''a.gpx'']) (PosixPath False [''a.json'']),
              sample_call (PosixPath True [''y'', ''a.kml'']) (PosixPath False [''a.json''])],
      Exit 0]"
proof -
  let ?inputs = "[PosixPath True [''x'', ''a.gpx''], PosixPath True [''y'', ''a.kml'']]"
  have l: "1 < length ?inputs"
    by simp
  have m: "mkdir sample_env dot_path = Inr ()"
    by (simp add: sample_env_def)
  have g: "await_gather sample_env tasks = Inr ()" for tasks
    by (simp add: sample_env_def)
  note th = several_inputs_outputs[OF l m, of None False]
  have t: "created_tasks (main sample_env ?inputs None None False) =
     [sample_call (PosixPath True [''x'', ''a.gpx'']) (PosixPath False [''a.json'']),
      sample_call (PosixPath True [''y'', ''a.kml'']) (PosixPath False [''a.json''])]"
    using th[THEN conjunct1]
    by (simp add: stem_def path_name_def Let_def sample_call_def)
  have c: "created_dirs (main sample_env ?inputs None None False) = [PosixPath False []]"
    using th[THEN conjunct2, THEN conjunct1] by (simp add: dot_path_def)
  have e: "main sample_env ?inputs None None False =
     [Mkdir (PosixPath False []),
      CreateTask (sample_call (PosixPath True [''x'', ''a.gpx'']) (PosixPath False [''a.json''])),
      CreateTask (sample_call (PosixPath True [''y'', ''a.kml'']) (PosixPath False [''a.json''])),
      Gather [sample_call (PosixPath True [''x'', ''a.gpx'']) (PosixPath False [''a.json'']),
              sample_call (PosixPath True [''y'', ''a.kml'']) (PosixPath False [''a.json''])],
      Exit 0]"
    by (subst th[THEN conjunct2, THEN conjunct2, THEN conjunct2], unfold t)
       (simp add: g dot_path_def)
  have o: "map call_outputfile (created_tasks (main sample_env ?inputs None None False)) =
     [Some (PosixPath False [''a.json'']), Some (PosixPath False [''a.json''])]"
    unfolding t by (simp add: sample_call_def)
  from o c e show ?thesis by blast
qed

text \<open>
  C7. In \<^verbatim>\<open>process_batch\<close> the destination directory is created once. Whenever a task
  is created, it is created after that, and the creation of the directory has
  succeeded.
\<close>

theorem destination_created_once_before_tasks:
  "created_dirs (fst (process_batch env files outputdir indentation concurrency)) =
     [outputdir] \<and>
   (\<forall>i c. i < length (fst (process_batch env files outputdir indentation concurrency)) \<and>
          fst (process_batch env files outputdir indentation concurrency) ! i = CreateTask c
          \<longrightarrow> 0 < i \<and>
              fst (process_batch env files outputdir indentation concurrency) ! 0 =
                Mkdir outputdir \<and>
              mkdir env outputdir = Inr ())"
proof (cases "mkdir env outputdir")
  case (Inl e)
  then show ?thesis
    by (auto simp add: process_batch_def nth_Cons')
next
  case (Inr u)
  have "0 < i" if "fst (process_batch env files outputdir indentation concurrency) ! i =
                     CreateTask c" for i c
    using that Inr by (cases i) (simp_all add: process_batch_def Let_def)
  moreover have "fst (process_batch env files outputdir indentation concurrency) ! 0 =
                   Mkdir outputdir"
    using Inr by (simp add: process_batch_def Let_def)
  ultimately show ?thesis
    using Inr process_batch_dirs[of env files outputdir indentation concurrency] by auto
qed

text \<open>The second effect of a batch of one file is the creation of its task.\<close>

theorem destination_created_once_before_tasks_witness:
  "fst (process_batch sample_env [PosixPath True [''data'', ''a.gpx'']]
          (PosixPath True [''out'']) None False) ! 1 =
     CreateTask (sample_call (PosixPath True [''data'', ''a.gpx''])
                   (PosixPath True [''out'', ''a.json''])) \<and>
   fst (process_batch sample_env [PosixPath True [''data'', ''a.gpx'']]
          (PosixPath True [''out'']) None False) ! 0 = Mkdir (PosixPath True [''out'']) \<and>
   mkdir sample_env (PosixPath True [''out'']) = Inr () \<and>
   created_dirs (fst (process_batch sample_env [PosixPath True [''data'', ''a.gpx'']]
          (PosixPath True [''out'']) None False)) = [PosixPath True [''out'']]"
proof -
  have one: "fst (process_batch sample_env [PosixPath True [''data'', ''a.gpx'']]
          (PosixPath True [''out'']) None False) ! 1 =
     CreateTask (sample_call (PosixPath True [''data'', ''a.gpx''])
                   (PosixPath True [''out'', ''a.json'']))"
    by (simp add: process_batch_def sample_env_def sample_call_def joinpath_def stem_def
          path_name_def Let_def)
  have len: "1 < length (fst (process_batch sample_env [PosixPath True [''data'', ''a.gpx'']]
          (PosixPath True [''out'']) None False))"
    by (simp add: process_batch_def sample_env_def Let_def)
  from destination_created_once_before_tasks[of sample_env
         "[PosixPath True [''data'', ''a.gpx'']]" "PosixPath True [''out'']" None False]
    one len
  show ?thesis by auto
qed

text \<open>
  C9, as the claim states it, fails: the sample directory holds a subdirectory named
  \<^verbatim>\<open>sub.gpx\<close>, and a task is created for it.
\<close>

theorem subdirectory_selected:
  "is_dir sample_env (joinpath sample_dir ''sub.gpx'') \<and>
   joinpath sample_dir ''sub.gpx'' \<in>
     set (map call_inputfile
            (created_tasks (fst (process_directory sample_env sample_dir
                                   (joinpath sample_dir ''coordextract_output'') None False))))"
  by (simp add: sample_env_def process_directory_def process_batch_def Let_def
        sample_dir_def joinpath_def suffix_def stem_def path_name_def)

text \<open>
  C9, amended. The entries of the input directory whose suffix is exactly
  \<^verbatim>\<open>.gpx\<close> are selected, files and subdirectories alike, each as the input of one
  task; every other entry is ignored. The input directory is the only directory that
  is listed.
\<close>

theorem directory_selection:
  assumes "listdir env inputdir = Inr names"
    and "mkdir env outputdir = Inr ()"
  shows "map call_inputfile
           (created_tasks (fst (process_directory env inputdir outputdir
                                  indentation concurrency))) =
           filter (\<lambda>file. suffix file = ''.gpx'') (map (joinpath inputdir) names) \<and>
         listed_dirs (fst (process_directory env inputdir outputdir
                             indentation concurrency)) = [inputdir]"
  using assms
  by (simp add: process_directory_effects process_batch_tasks process_batch_listed comp_def)

text \<open>
  In the sample directory the text file, the file with the suffix in capitals and the
  file inside the subdirectory are not selected.
\<close>

theorem directory_selection_witness:
  "listdir sample_env sample_dir =
     Inr [''a.gpx'', ''notes.txt'', ''sub.gpx'', ''b.GPX'', ''c.gpx''] \<and>
   map call_inputfile
     (created_tasks (fst (process_directory sample_env sample_dir
                            (PosixPath True [''out'']) None False))) =
     [PosixPath True [''data'', ''a.gpx''], PosixPath True [''data'', ''sub.gpx''],
      PosixPath True [''data'', ''c.gpx'']] \<and>
   listed_dirs (fst (process_directory sample_env sample_dir
                       (PosixPath True [''out'']) None False)) = [PosixPath True [''data'']]"
proof -
  have l: "listdir sample_env sample_dir =
             Inr [''a.gpx'', ''notes.txt'', ''sub.gpx'', ''b.GPX'', ''c.gpx'']"
    by (simp add: sample_env_def)
  have m: "mkdir sample_env (PosixPath True [''out'']) = Inr ()"
    by (simp add: sample_env_def)
  from directory_selection[OF l m, of None False] l show ?thesis
    by (simp add: sample_dir_def joinpath_def suffix_def path_name_def Let_def)
qed

end
